theory Spec2Isabelle
  imports Main "HOL-Library.Sublist" "HOL-Library.AList"
begin

section \<open>Strings (package strings of the Go standard library)\<close>

text \<open>
  A Go string is a sequence of bytes; it is modelled as a \<open>char list\<close>. Every separator,
  keyword and character class the program looks for is ASCII, so matching on bytes finds
  the same positions as matching on runes.
\<close>

text \<open>
  \<open>strings.TrimSpace\<close> removes the runes of Unicode white space from both ends. A rune is
  decoded from the bytes at the start, or from the bytes before the nearest rune start at
  the end; each white-space rune has one encoding, listed here, so a white-space rune
  stands at an end exactly when one of these byte sequences does.
\<close>

definition spaceRunes :: "string list" where
  \<comment> \<open>tab, line feed, vertical tab, form feed, carriage return, space; U+0085, U+00A0,
      U+1680, U+2000 to U+200A, U+2028, U+2029, U+202F, U+205F, U+3000 in UTF-8\<close>
  "spaceRunes = [[CHR 0x09], [CHR 0x0A], [CHR 0x0B], [CHR 0x0C], [CHR 0x0D], [CHR 0x20],
     [CHR 0xC2, CHR 0x85], [CHR 0xC2, CHR 0xA0],
     [CHR 0xE1, CHR 0x9A, CHR 0x80],
     [CHR 0xE2, CHR 0x80, CHR 0x80], [CHR 0xE2, CHR 0x80, CHR 0x81],
     [CHR 0xE2, CHR 0x80, CHR 0x82], [CHR 0xE2, CHR 0x80, CHR 0x83],
     [CHR 0xE2, CHR 0x80, CHR 0x84], [CHR 0xE2, CHR 0x80, CHR 0x85],
     [CHR 0xE2, CHR 0x80, CHR 0x86], [CHR 0xE2, CHR 0x80, CHR 0x87],
     [CHR 0xE2, CHR 0x80, CHR 0x88], [CHR 0xE2, CHR 0x80, CHR 0x89],
     [CHR 0xE2, CHR 0x80, CHR 0x8A],
     [CHR 0xE2, CHR 0x80, CHR 0xA8], [CHR 0xE2, CHR 0x80, CHR 0xA9],
     [CHR 0xE2, CHR 0x80, CHR 0xAF],
     [CHR 0xE2, CHR 0x81, CHR 0x9F],
     [CHR 0xE3, CHR 0x80, CHR 0x80]]"

definition leadLength :: "string list \<Rightarrow> string \<Rightarrow> nat" where
  \<comment> \<open>the number of bytes of the listed sequence the text starts with, 0 when it starts
      with none\<close>
  "leadLength runes s =
     (case find (\<lambda>e. e \<noteq> [] \<and> prefix e s) runes of None \<Rightarrow> 0 | Some e \<Rightarrow> length e)"

function stripLeading :: "string list \<Rightarrow> string \<Rightarrow> string" where
  "stripLeading runes s =
     (if leadLength runes s = 0 then s else stripLeading runes (drop (leadLength runes s) s))"
  by pat_completeness auto
termination
proof (relation "measure (\<lambda>(runes, s). length s)")
  show "wf (measure (\<lambda>(runes, s). length s))" by simp
next
  fix runes :: "string list" and s :: string
  assume n: "leadLength runes s \<noteq> 0"
  then obtain e where "find (\<lambda>e. e \<noteq> [] \<and> prefix e s) runes = Some e"
    by (auto simp: leadLength_def split: option.splits)
  then have "e \<noteq> []" and "prefix e s"
    by (auto simp: find_Some_iff)
  then have "s \<noteq> []" by auto
  with n show "((runes, drop (leadLength runes s) s), (runes, s)) \<in> measure (\<lambda>(runes, s). length s)"
    by simp
qed

declare stripLeading.simps [simp del]

definition TrimSpace :: "string \<Rightarrow> string" where
  "TrimSpace s = rev (stripLeading (map rev spaceRunes) (rev (stripLeading spaceRunes s)))"

fun Contains :: "string \<Rightarrow> string \<Rightarrow> bool" where
  "Contains [] sub = (sub = [])"
| "Contains (c # cs) sub = (prefix sub (c # cs) \<or> Contains cs sub)"

definition HasPrefix :: "string \<Rightarrow> string \<Rightarrow> bool" where
  "HasPrefix s p = prefix p s"

definition HasSuffix :: "string \<Rightarrow> string \<Rightarrow> bool" where
  "HasSuffix s p = suffix p s"

definition TrimSuffix :: "string \<Rightarrow> string \<Rightarrow> string" where
  "TrimSuffix s suf = (if suffix suf s then take (length s - length suf) s else s)"

definition TrimPrefix :: "string \<Rightarrow> string \<Rightarrow> string" where
  "TrimPrefix s p = (if prefix p s then drop (length p) s else s)"

fun splitOn :: "char \<Rightarrow> string \<Rightarrow> string \<Rightarrow> string list" where
  \<comment> \<open>\<open>strings.Split\<close> with a one-byte separator; the accumulator is the current piece\<close>
  "splitOn sep acc [] = [acc]"
| "splitOn sep acc (c # cs) =
     (if c = sep then acc # splitOn sep [] cs else splitOn sep (acc @ [c]) cs)"

definition Split :: "string \<Rightarrow> char \<Rightarrow> string list" where
  "Split s sep = splitOn sep [] s"

definition IndexAny :: "string \<Rightarrow> string \<Rightarrow> nat option" where
  \<comment> \<open>\<open>None\<close> is Go's \<open>-1\<close>\<close>
  "IndexAny s chars =
     (let n = length (takeWhile (\<lambda>c. c \<notin> set chars) s)
      in if n < length s then Some n else None)"

fun Index :: "string \<Rightarrow> string \<Rightarrow> nat option" where
  "Index [] sub = (if sub = [] then Some 0 else None)"
| "Index (c # cs) sub =
     (if prefix sub (c # cs) then Some 0 else map_option Suc (Index cs sub))"

definition lowerChar :: "char \<Rightarrow> char" where
  \<comment> \<open>an ASCII capital letter to its small letter; other bytes stay\<close>
  "lowerChar c =
     (let n = (of_char c :: nat) in if 65 \<le> n \<and> n \<le> 90 then char_of (n + 32) else c)"

definition isASCII :: "string \<Rightarrow> bool" where
  "isASCII s = list_all (\<lambda>c. (of_char c :: nat) < 128) s"

definition ToLower :: "(string \<Rightarrow> string) \<Rightarrow> string \<Rightarrow> string" where
  \<comment> \<open>\<open>strings.ToLower\<close>: a text of ASCII bytes is lowered byte by byte; a text with a byte
      above 0x7F goes through \<open>strings.Map(unicode.ToLower, s)\<close>, which reads the Unicode
      case tables of the Go library. That path is the argument \<open>unicodeLower\<close>.\<close>
  "ToLower unicodeLower s = (if isASCII s then map lowerChar s else unicodeLower s)"

fun join :: "string \<Rightarrow> string list \<Rightarrow> string" where
  \<comment> \<open>the loops that write \<open>", "\<close> before every element but the first\<close>
  "join sep [] = []"
| "join sep [x] = x"
| "join sep (x # y # ys) = x @ sep @ join sep (y # ys)"

section \<open>Regular expressions (package regexp)\<close>

text \<open>
  Go's regexp returns the leftmost match and, among the matches that start there, the one
  a backtracking search finds first. The matcher below lists, for a pattern and an input,
  every way the pattern can match a prefix of the input, in the order of that search:
  greedy repetitions try the longest run first, an optional part is tried before it is
  left out, the left branch of an alternative before the right one. The head of the list
  is the match Go reports at that position. Only the constructs of the four patterns of
  \<open>extractExports\<close> are modelled.
\<close>

datatype cclass = Space | Word | NotRParen

fun inClass :: "cclass \<Rightarrow> char \<Rightarrow> bool" where
  "inClass Space c = (c \<in> set [CHR 0x09, CHR 0x0A, CHR 0x0C, CHR 0x0D, CHR 0x20])"
| "inClass Word c =
     (c \<in> set ''0123456789ABCDEFGHIJKLMNOPQRSTUVWXYZ_abcdefghijklmnopqrstuvwxyz'')"
| "inClass NotRParen c = (c \<noteq> CHR '')'')"

declare inClass.simps [simp del]

datatype re =
    Lit string
  | Plus cclass
  | Star cclass
  | Seq re re
  | Alt re re
  | Opt re
  | Cap nat re

type_synonym caps = "(nat \<times> string) list"

fun rmatch :: "re \<Rightarrow> string \<times> caps \<Rightarrow> (string \<times> caps) list" where
  "rmatch (Lit l) (s, c) = (if prefix l s then [(drop (length l) s, c)] else [])"
| "rmatch (Plus k) (s, c) =
     map (\<lambda>n. (drop n s, c)) (rev [1..<Suc (length (takeWhile (inClass k) s))])"
| "rmatch (Star k) (s, c) =
     map (\<lambda>n. (drop n s, c)) (rev [0..<Suc (length (takeWhile (inClass k) s))])"
| "rmatch (Seq a b) sc = concat (map (rmatch b) (rmatch a sc))"
| "rmatch (Alt a b) sc = rmatch a sc @ rmatch b sc"
| "rmatch (Opt a) sc = rmatch a sc @ [sc]"
| "rmatch (Cap i a) (s, c) =
     map (\<lambda>(s', c'). (s', (i, take (length s - length s') s) # c')) (rmatch a (s, c))"

fun seqs :: "re list \<Rightarrow> re" where
  "seqs [] = Lit []"
| "seqs [r] = r"
| "seqs (r # rs) = Seq r (seqs rs)"

record submatch =
  m_start :: nat
  m_text :: string
  m_caps :: caps

definition group :: "submatch \<Rightarrow> nat \<Rightarrow> string" where
  \<comment> \<open>\<open>match[i]\<close>: the text of group \<open>i\<close>, empty when the group took no part in the match\<close>
  "group m i = (if i = 0 then m_text m else case map_of (m_caps m) i of None \<Rightarrow> [] | Some t \<Rightarrow> t)"

fun scanAll :: "re \<Rightarrow> nat \<Rightarrow> nat \<Rightarrow> string \<Rightarrow> submatch list" where
  \<comment> \<open>\<open>skip\<close> bytes of the previous match are still to be passed over; \<open>pos\<close> is the offset
      of the first byte of the remaining input\<close>
  "scanAll r skip pos [] = []"
| "scanAll r skip pos (c # cs) =
     (if 0 < skip then scanAll r (skip - 1) (Suc pos) cs
      else case rmatch r (c # cs, []) of
             [] \<Rightarrow> scanAll r 0 (Suc pos) cs
           | (rest, cp) # _ \<Rightarrow>
               (let n = length (c # cs) - length rest
                in \<lparr>m_start = pos, m_text = take n (c # cs), m_caps = cp\<rparr>
                   # scanAll r (n - 1) (Suc pos) cs))"

definition FindAllStringSubmatch :: "re \<Rightarrow> string \<Rightarrow> submatch list" where
  \<comment> \<open>all successive non-overlapping matches (the call's \<open>n\<close> is \<open>-1\<close>). Each of the four
      patterns starts with the literal \<open>export\<close>, so no match is empty and none starts at
      the end of the input.\<close>
  "FindAllStringSubmatch r s = scanAll r 0 0 s"

section \<open>The symbol extractor (generate.go)\<close>

record exportedSymbol =
  name :: string
  kind :: string
  isAsync :: bool
  params :: "string list"
  isDefault :: bool

definition funcPattern :: re where
  \<comment> \<open>\<^verbatim>\<open>export\s+(?:async\s+)?function\s+(\w+)\s*\(([^)]*)\)\<close>\<close>
  "funcPattern = seqs [Lit ''export'', Plus Space, Opt (Seq (Lit ''async'') (Plus Space)),
     Lit ''function'', Plus Space, Cap 1 (Plus Word), Star Space, Lit ''('',
     Cap 2 (Star NotRParen), Lit '')'']"

definition constPattern :: re where
  \<comment> \<open>\<^verbatim>\<open>export\s+const\s+(\w+)\s*=\s*(?:async\s*)?\(([^)]*)\)\s*=>\<close>\<close>
  "constPattern = seqs [Lit ''export'', Plus Space, Lit ''const'', Plus Space,
     Cap 1 (Plus Word), Star Space, Lit ''='', Star Space,
     Opt (Seq (Lit ''async'') (Star Space)), Lit ''('', Cap 2 (Star NotRParen), Lit '')'',
     Star Space, Lit ''=>'']"

definition classPattern :: re where
  \<comment> \<open>\<^verbatim>\<open>export\s+class\s+(\w+)\<close>\<close>
  "classPattern = seqs [Lit ''export'', Plus Space, Lit ''class'', Plus Space,
     Cap 1 (Plus Word)]"

definition defaultPattern :: re where
  \<comment> \<open>\<^verbatim>\<open>export\s+default\s+(?:function|class)?\s*(\w+)?\<close>\<close>
  "defaultPattern = seqs [Lit ''export'', Plus Space, Lit ''default'', Plus Space,
     Opt (Alt (Lit ''function'') (Lit ''class'')), Star Space, Opt (Cap 1 (Plus Word))]"

definition parseParam :: "string \<Rightarrow> string" where
  \<comment> \<open>the body of the loop of \<open>parseParams\<close>: the name before \<open>:\<close> or \<open>=\<close>, trimmed\<close>
  "parseParam p0 =
     (let p = TrimSpace p0;
          p = (case IndexAny p [CHR '':'', CHR ''=''] of Some idx \<Rightarrow> take idx p | None \<Rightarrow> p)
      in TrimSpace p)"

definition parseParams :: "string \<Rightarrow> string list" where
  "parseParams paramStr =
     (if TrimSpace paramStr = [] then []
      else filter (\<lambda>p. p \<noteq> []) (map parseParam (Split paramStr (CHR '',''))))"

definition funcSymbol :: "submatch \<Rightarrow> exportedSymbol" where
  "funcSymbol m = \<lparr>name = group m 1, kind = ''function'',
     isAsync = Contains (group m 0) ''async'', params = parseParams (group m 2),
     isDefault = False\<rparr>"

definition constSymbol :: "submatch \<Rightarrow> exportedSymbol" where
  "constSymbol m = \<lparr>name = group m 1, kind = ''const'',
     isAsync = Contains (group m 0) ''async'', params = parseParams (group m 2),
     isDefault = False\<rparr>"

definition classSymbol :: "submatch \<Rightarrow> exportedSymbol" where
  "classSymbol m = \<lparr>name = group m 1, kind = ''class'', isAsync = False, params = [],
     isDefault = False\<rparr>"

definition defaultSymbol :: "submatch \<Rightarrow> exportedSymbol" where
  "defaultSymbol m = \<lparr>name = (if group m 1 = [] then ''default'' else group m 1),
     kind = ''default'', isAsync = False, params = [], isDefault = True\<rparr>"

definition defaultSymbols :: "string \<Rightarrow> exportedSymbol list" where
  \<comment> \<open>only \<open>matches[0]\<close> is read\<close>
  "defaultSymbols code =
     (case FindAllStringSubmatch defaultPattern code of
        [] \<Rightarrow> []
      | m # _ \<Rightarrow> [defaultSymbol m])"

definition extractExports :: "string \<Rightarrow> exportedSymbol list" where
  \<comment> \<open>four loops in sequence, each appending to \<open>exports\<close>\<close>
  "extractExports code =
     map funcSymbol (FindAllStringSubmatch funcPattern code)
     @ map constSymbol (FindAllStringSubmatch constPattern code)
     @ map classSymbol (FindAllStringSubmatch classPattern code)
     @ defaultSymbols code"

section \<open>The basic renderer (generate.go)\<close>

definition nl :: string where
  "nl = [CHR 0x0A]"

definition q :: string where
  \<comment> \<open>the single quote of the generated TypeScript\<close>
  "q = [CHR 0x27]"

definition generateFunctionTests :: "exportedSymbol \<Rightarrow> string" where
  "generateFunctionTests symb = concat [
     ''  it('' @ q @ ''should be defined'' @ q @ '', () => {'' @ nl,
     ''    expect('' @ name symb @ '').toBeDefined();'' @ nl,
     ''  });'' @ nl @ nl,
     (if 0 < length (params symb) then concat [
        ''  it('' @ q @ ''should handle basic input'' @ q @ '', () => {'' @ nl,
        ''    // TODO: Replace with actual test data'' @ nl,
        ''    const result = '' @ name symb @ ''('',
        join '', '' (map (\<lambda>_. ''null'') (params symb)),
        '');'' @ nl,
        ''    expect(result).toBeDefined();'' @ nl,
        ''  });'' @ nl @ nl]
      else []),
     (if isAsync symb then concat [
        ''  it('' @ q @ ''should handle async operations'' @ q @ '', async () => {'' @ nl,
        ''    // TODO: Replace with actual test data'' @ nl,
        ''    const result = await '' @ name symb @ ''('',
        join '', '' (map (\<lambda>_. ''null'') (params symb)),
        '');'' @ nl,
        ''    expect(result).toBeDefined();'' @ nl,
        ''  });'' @ nl @ nl]
      else []),
     ''  it('' @ q @ ''should handle edge cases'' @ q @ '', () => {'' @ nl,
     ''    // TODO: Add edge case tests'' @ nl,
     ''    expect(true).toBe(true);'' @ nl,
     ''  });'' @ nl]"

definition generateClassTests :: "exportedSymbol \<Rightarrow> string" where
  "generateClassTests symb = concat [
     ''  it('' @ q @ ''should be instantiable'' @ q @ '', () => {'' @ nl,
     ''    const instance = new '' @ name symb @ ''();'' @ nl,
     ''    expect(instance).toBeDefined();'' @ nl,
     ''  });'' @ nl @ nl,
     ''  it('' @ q @ ''should have expected methods'' @ q @ '', () => {'' @ nl,
     ''    const instance = new '' @ name symb @ ''();'' @ nl,
     ''    // TODO: Add method existence checks'' @ nl,
     ''    expect(instance).toBeDefined();'' @ nl,
     ''  });'' @ nl]"

definition generateDefaultTests :: "exportedSymbol \<Rightarrow> string" where
  "generateDefaultTests symb = concat [
     ''  it('' @ q @ ''should be defined'' @ q @ '', () => {'' @ nl,
     ''    expect('' @ name symb @ '').toBeDefined();'' @ nl,
     ''  });'' @ nl]"

definition generateTestForSymbol :: "exportedSymbol \<Rightarrow> string" where
  "generateTestForSymbol symb = concat [
     ''describe('' @ q @ name symb @ q @ '', () => {'' @ nl,
     (if kind symb = ''function'' \<or> kind symb = ''const'' then generateFunctionTests symb
      else if kind symb = ''class'' then generateClassTests symb
      else if kind symb = ''default'' then generateDefaultTests symb
      else []),
     ''});'' @ nl]"

definition generateTestCode :: "string \<Rightarrow> exportedSymbol list \<Rightarrow> string \<Rightarrow> string \<Rightarrow> string" where
  "generateTestCode tsPath exports sourceCode testSyntax =
     (let importPath = TrimSuffix (TrimSuffix tsPath ''.ts'') ''.tsx''
      in concat [
        ''/**'' @ nl,
        '' * Auto-generated test file'' @ nl,
        '' * Source: '' @ tsPath @ nl,
        '' */'' @ nl @ nl,
        ''import { '',
        join '', '' (map name exports),
        '' } from '' @ q @ ''../'' @ importPath @ q @ '';'' @ nl @ nl,
        (if testSyntax = ''vitest''
         then ''import { describe, it, expect, beforeEach, afterEach } from '' @ q @ ''vitest''
              @ q @ '';'' @ nl @ nl
         else ''import { describe, it, expect, beforeEach, afterEach } from '' @ q
              @ ''@jest/globals'' @ q @ '';'' @ nl @ nl),
        concat (map (\<lambda>exp. generateTestForSymbol exp @ nl) exports)])"

datatype analysis_error = AugmentNotInPath | CreateTempFailed | WriteTempFailed

datatype gen_error =
    NoExportedSymbols string
  | AugmentAnalysisFailed analysis_error
  | TypeAssertionPanic

definition GenerateTest :: "string \<Rightarrow> string \<Rightarrow> string \<Rightarrow> gen_error + string" where
  "GenerateTest tsPath code framework =
     (let exports = extractExports code
      in if length exports = 0 then Inl (NoExportedSymbols tsPath)
         else let testSyntax = (if framework = ''vitest'' then ''vitest'' else ''jest'')
              in Inr (generateTestCode tsPath exports code testSyntax))"

section \<open>Analysis and scenarios (augment.go)\<close>

record Parameter =
  PName :: string
  PType :: string
  Optional :: bool
  Default :: string

record ExportedFunction =
  Name :: string
  Type :: string
  IsAsync :: bool
  Parameters :: "Parameter list"
  ReturnType :: string
  Description :: string

text \<open>
  The values stored under \<open>interface{}\<close>. A \<open>float64\<close> (what the JSON decoder produces
  for a number) carries the text \<open>%v\<close> prints for it; the slice and the map the program
  stores are always empty.
\<close>

datatype gvalue =
    VNil
  | VString string
  | VInt int
  | VBool bool
  | VFloat64 string
  | VSlice
  | VMap

text \<open>
  A Go map is an association list with distinct keys; \<open>m[k] = v\<close> is \<open>AList.update k v m\<close>.
  The order of the list means nothing to the program. A \<open>range\<close> over a map visits every
  entry once, in an order the runtime chooses anew for each loop; the functions that range
  over a map take that choice as their first argument.
\<close>

type_synonym 'v gomap = "(string \<times> 'v) list"

type_synonym 'v range_order = "'v gomap \<Rightarrow> string list"

definition valid_order :: "'v range_order \<Rightarrow> 'v gomap \<Rightarrow> bool" where
  \<comment> \<open>the order visits each key of the map exactly once\<close>
  "valid_order ord m = (distinct (ord m) \<and> set (ord m) = set (map fst m))"

definition rangeMap :: "'v range_order \<Rightarrow> 'v gomap \<Rightarrow> (string \<times> 'v) list" where
  "rangeMap ord m = List.map_filter (\<lambda>k. map_option (Pair k) (map_of m k)) (ord m)"

record TestScenario =
  SName :: string
  SDescription :: string
  Inputs :: "gvalue gomap"
  Expected :: gvalue
  EdgeCase :: bool

record AugmentCodeAnalysis =
  FilePath :: string
  Exports :: "ExportedFunction list"
  Dependencies :: "string list"
  Complexity :: string
  ADescription :: string
  TestScenarios :: "TestScenario list"

definition generateSampleValue :: "(string \<Rightarrow> string) \<Rightarrow> string \<Rightarrow> gvalue" where
  "generateSampleValue unicodeLower typeStr0 =
     (let typeStr = ToLower unicodeLower typeStr0
      in if Contains typeStr ''string'' then VString ''sample''
         else if Contains typeStr ''number'' then VInt 42
         else if Contains typeStr ''boolean'' then VBool True
         else if Contains typeStr ''array'' then VSlice
         else if Contains typeStr ''object'' then VMap
         else VNil)"

definition generateSampleInputs :: "(string \<Rightarrow> string) \<Rightarrow> Parameter list \<Rightarrow> gvalue gomap" where
  "generateSampleInputs unicodeLower ps =
     foldl (\<lambda>inputs param. AList.update (PName param) (generateSampleValue unicodeLower (PType param)) inputs)
       [] ps"

definition generateBasicScenarios :: "(string \<Rightarrow> string) \<Rightarrow> ExportedFunction \<Rightarrow> TestScenario list" where
  "generateBasicScenarios unicodeLower exp =
     [\<lparr>SName = Name exp @ '' - happy path'',
       SDescription = ''Test '' @ Name exp @ '' with valid inputs'',
       Inputs = generateSampleInputs unicodeLower (Parameters exp),
       Expected = VString ''success'', EdgeCase = False\<rparr>]
     @ (if 0 < length (Parameters exp)
        then [\<lparr>SName = Name exp @ '' - null input'',
                SDescription = ''Test '' @ Name exp @ '' with null input'',
                Inputs = [(''input'', VNil)],
                Expected = VString ''error or default'', EdgeCase = True\<rparr>]
        else [])
     @ [\<lparr>SName = Name exp @ '' - empty input'',
         SDescription = ''Test '' @ Name exp @ '' with empty input'',
         Inputs = [],
         Expected = VString ''error or default'', EdgeCase = True\<rparr>]
     @ (if IsAsync exp
        then [\<lparr>SName = Name exp @ '' - async resolution'',
                SDescription = ''Test '' @ Name exp @ '' async behavior'',
                Inputs = generateSampleInputs unicodeLower (Parameters exp),
                Expected = VString ''resolved promise'', EdgeCase = False\<rparr>]
        else [])"

definition Trim :: "string \<Rightarrow> string \<Rightarrow> string" where
  "Trim s cutset =
     rev (dropWhile (\<lambda>c. c \<in> set cutset) (rev (dropWhile (\<lambda>c. c \<in> set cutset) s)))"

definition dependencyOfLine :: "string \<Rightarrow> string list" where
  \<comment> \<open>the body of the loop of \<open>extractDependencies\<close>: what one line appends\<close>
  "dependencyOfLine line0 =
     (let line = TrimSpace line0
      in if HasPrefix line ''import '' then
           (case Index line ''from'' of
              None \<Rightarrow> []
            | Some idx \<Rightarrow>
                (let rest = Trim (TrimSpace (drop (idx + 4) line)) [CHR 0x27, CHR 0x22]
                 in if rest \<noteq> [] then [rest] else []))
         else [])"

definition extractDependencies :: "string \<Rightarrow> string list" where
  "extractDependencies code = concat (map dependencyOfLine (Split code (CHR 0x0A)))"

definition symbolToExport :: "exportedSymbol \<Rightarrow> ExportedFunction" where
  \<comment> \<open>the conversion loop: three fields are copied, the others keep their zero value\<close>
  "symbolToExport symb = \<lparr>Name = name symb, Type = kind symb, IsAsync = isAsync symb,
     Parameters = [], ReturnType = [], Description = []\<rparr>"

definition analyzeBasic :: "(string \<Rightarrow> string) \<Rightarrow> string \<Rightarrow> string \<Rightarrow> AugmentCodeAnalysis" where
  "analyzeBasic unicodeLower filePath code =
     (let exports = map symbolToExport (extractExports code)
      in \<lparr>FilePath = filePath, Exports = exports,
          Dependencies = extractDependencies code,
          Complexity = ''medium'', ADescription = ''Auto-analyzed module'',
          TestScenarios = concat (map (generateBasicScenarios unicodeLower) exports)\<rparr>)"

text \<open>
  \<open>AnalyzeWithAugment\<close> runs an external program. What that run did is an argument: the
  program is not on the path, a temporary file cannot be created or written, the command
  fails, its output is not JSON, or its output decodes to an analysis.
\<close>

datatype augment_run =
    LookPathFails
  | CreateTempFails
  | WriteTempFails
  | CommandFails
  | OutputNotJSON
  | OutputParsed AugmentCodeAnalysis

definition AnalyzeWithAugment ::
  "(string \<Rightarrow> string) \<Rightarrow> augment_run \<Rightarrow> string \<Rightarrow> string \<Rightarrow> analysis_error + AugmentCodeAnalysis" where
  "AnalyzeWithAugment unicodeLower run filePath code =
     (case run of
        LookPathFails \<Rightarrow> Inl AugmentNotInPath
      | CreateTempFails \<Rightarrow> Inl CreateTempFailed
      | WriteTempFails \<Rightarrow> Inl WriteTempFailed
      | CommandFails \<Rightarrow> Inr (analyzeBasic unicodeLower filePath code)
      | OutputNotJSON \<Rightarrow> Inr (analyzeBasic unicodeLower filePath code)
      | OutputParsed analysis \<Rightarrow> Inr (analysis\<lparr>FilePath := filePath\<rparr>))"

definition formatValue :: "gvalue \<Rightarrow> string" where
  \<comment> \<open>the type switch has no case for \<open>int\<close>: it takes the default branch\<close>
  "formatValue val =
     (case val of
        VNil \<Rightarrow> ''null''
      | VString v \<Rightarrow> q @ v @ q
      | VBool v \<Rightarrow> (if v then ''true'' else ''false'')
      | VFloat64 txt \<Rightarrow> txt
      | VSlice \<Rightarrow> ''[]''
      | VMap \<Rightarrow> ''{}''
      | VInt _ \<Rightarrow> ''null'')"

definition getTypeofValue :: "(string \<Rightarrow> string) \<Rightarrow> string \<Rightarrow> string" where
  "getTypeofValue unicodeLower typeStr0 =
     (let typeStr = ToLower unicodeLower typeStr0
      in if typeStr = ''function'' then ''function''
         else if typeStr = ''class'' then ''function''
         else ''object'')"

definition edgeMark :: string where
  \<comment> \<open>the bytes of the source file before \<open>[EDGE CASE]\<close>\<close>
  "edgeMark = [CHR 0xE2, CHR 0x80, CHR 0x9A, CHR 0xC3, CHR 0xBA, CHR 0xC3, CHR 0xAC]"

definition generateTestCase ::
  "gvalue range_order \<Rightarrow> ExportedFunction \<Rightarrow> TestScenario \<Rightarrow> string \<Rightarrow> string" where
  "generateTestCase ord exp scenario framework =
     (let testName = (if EdgeCase scenario then edgeMark @ '' [EDGE CASE] '' @ SName scenario
                      else SName scenario)
      in concat [
        ''  it('' @ q @ testName @ q @ '', '',
        (if IsAsync exp then ''async '' else []),
        ''() => {'' @ nl,
        (if 0 < length (Inputs scenario) then concat [
           ''    // Arrange'' @ nl,
           concat (map (\<lambda>(key, val). ''    const '' @ key @ '' = '' @ formatValue val @ '';'' @ nl)
                     (rangeMap ord (Inputs scenario))),
           nl]
         else []),
        ''    // Act'' @ nl,
        (if IsAsync exp then ''    const result = await '' @ Name exp @ ''(''
         else ''    const result = '' @ Name exp @ ''(''),
        join '', '' (map PName (Parameters exp)),
        '');'' @ nl @ nl,
        ''    // Assert'' @ nl,
        ''    expect(result).toBeDefined();'' @ nl,
        ''    // TODO: Add specific assertions based on expected behavior'' @ nl,
        ''  });'' @ nl])"

definition generateTestsForExport ::
  "(string \<Rightarrow> string) \<Rightarrow> gvalue range_order \<Rightarrow> ExportedFunction \<Rightarrow> TestScenario list \<Rightarrow> string \<Rightarrow> string" where
  "generateTestsForExport unicodeLower ord exp scenarios framework = concat [
     ''describe('' @ q @ Name exp @ q @ '', () => {'' @ nl,
     ''  let result: any;'' @ nl @ nl,
     concat (map (\<lambda>scenario. generateTestCase ord exp scenario framework @ nl)
               (filter (\<lambda>scenario. Contains (SName scenario) (Name exp)) scenarios)),
     ''  it('' @ q @ ''should be defined'' @ q @ '', () => {'' @ nl,
     ''    expect('' @ Name exp @ '').toBeDefined();'' @ nl,
     ''  });'' @ nl @ nl,
     ''  it('' @ q @ ''should be a '' @ Type exp @ q @ '', () => {'' @ nl,
     ''    expect(typeof '' @ Name exp @ '').toBe('' @ q @ getTypeofValue unicodeLower (Type exp) @ q
       @ '');'' @ nl,
     ''  });'' @ nl,
     ''});'' @ nl]"

fun extScan :: "string \<Rightarrow> string \<Rightarrow> string" where
  \<comment> \<open>the loop of \<open>filepath.Ext\<close>, over the reversed path; \<open>acc\<close> is the tail passed so far\<close>
  "extScan [] acc = []"
| "extScan (c # cs) acc =
     (if c = CHR ''/'' then []
      else if c = CHR ''.'' then c # acc
      else extScan cs (c # acc))"

definition Ext :: "string \<Rightarrow> string" where
  "Ext path = extScan (rev path) []"

definition generateTestCodeFromAnalysis ::
  "(string \<Rightarrow> string) \<Rightarrow> gvalue range_order \<Rightarrow> string \<Rightarrow> AugmentCodeAnalysis \<Rightarrow> string \<Rightarrow> string" where
  "generateTestCodeFromAnalysis unicodeLower ord tsPath analysis framework =
     (let importPath = TrimPrefix (TrimSuffix tsPath (Ext tsPath)) ''./''
      in concat [
        ''/**'' @ nl,
        '' * Auto-generated test file (powered by Augment)'' @ nl,
        '' * Source: '' @ tsPath @ nl,
        '' * Description: '' @ ADescription analysis @ nl,
        '' */'' @ nl @ nl,
        ''import { '',
        join '', '' (map Name (Exports analysis)),
        '' } from '' @ q @ ''../'' @ importPath @ q @ '';'' @ nl @ nl,
        (if framework = ''vitest''
         then ''import { describe, it, expect, beforeEach, afterEach, vi } from '' @ q
              @ ''vitest'' @ q @ '';'' @ nl @ nl
         else ''import { describe, it, expect, beforeEach, afterEach, jest } from '' @ q
              @ ''@jest/globals'' @ q @ '';'' @ nl @ nl),
        concat (map (\<lambda>exp. generateTestsForExport unicodeLower ord exp (TestScenarios analysis) framework @ nl)
                  (Exports analysis))])"

definition GenerateTestWithAugment ::
  "(string \<Rightarrow> string) \<Rightarrow> augment_run \<Rightarrow> gvalue range_order \<Rightarrow> string \<Rightarrow> string \<Rightarrow> string \<Rightarrow> gen_error + string" where
  "GenerateTestWithAugment unicodeLower run ord tsPath code framework =
     (case AnalyzeWithAugment unicodeLower run tsPath code of
        Inl err \<Rightarrow> Inl (AugmentAnalysisFailed err)
      | Inr analysis \<Rightarrow>
          if length (Exports analysis) = 0 then Inl (NoExportedSymbols tsPath)
          else Inr (generateTestCodeFromAnalysis unicodeLower ord tsPath analysis framework))"

section \<open>The project index (context engine)\<close>

record AugmentContextEngine =
  ProjectRoot :: string
  IndexedCode :: "string gomap"
  EExports :: "ExportedFunction list gomap"
  EDependencies :: "string list gomap"
  Initialized :: bool

definition NewAugmentContextEngine :: "string \<Rightarrow> AugmentContextEngine" where
  "NewAugmentContextEngine projectRoot = \<lparr>ProjectRoot = projectRoot, IndexedCode = [],
     EExports = [], EDependencies = [], Initialized = False\<rparr>"

definition lookupList :: "'a list gomap \<Rightarrow> string \<Rightarrow> 'a list" where
  \<comment> \<open>\<open>m[k]\<close> of a map of slices: the nil slice for a missing key\<close>
  "lookupList m k = (case map_of m k of None \<Rightarrow> [] | Some v \<Rightarrow> v)"

definition lookupCount :: "int gomap \<Rightarrow> string \<Rightarrow> int" where
  \<comment> \<open>\<open>m[k]\<close> of a map of ints: zero for a missing key\<close>
  "lookupCount m k = (case map_of m k of None \<Rightarrow> 0 | Some v \<Rightarrow> v)"

text \<open>
  The tree \<open>filepath.Walk\<close> goes through: a file with what \<open>os.ReadFile\<close> returns for it
  (\<open>None\<close> when the read fails), a directory with its entries in the order of the walk, a
  directory whose listing fails, an entry whose \<open>lstat\<close> fails. Paths are the full paths
  the callback receives. For the last two the callback receives the error, and its first
  statement returns it, which ends the walk.
\<close>

datatype fsnode =
    FsFile string "string option"
  | FsDir string "fsnode list"
  | FsDirUnreadable string
  | FsLstatFails string

definition skipDir :: "string \<Rightarrow> bool" where
  "skipDir path = (Contains path ''node_modules'' \<or> Contains path ''.git''
     \<or> Contains path ''/build/'' \<or> Contains path ''/dist/'')"

definition indexFile ::
  "(string \<Rightarrow> string \<Rightarrow> string) \<Rightarrow> string \<Rightarrow> string option \<Rightarrow> AugmentContextEngine
   \<Rightarrow> AugmentContextEngine" where
  \<comment> \<open>the callback on a file; \<open>rel\<close> is \<open>filepath.Rel\<close>\<close>
  "indexFile rel path content ace =
     (if \<not> HasSuffix path ''.ts'' \<and> \<not> HasSuffix path ''.tsx'' then ace
      else if HasSuffix path ''.d.ts'' then ace
      else if Contains path ''.test.'' \<or> Contains path ''.spec.'' then ace
      else case content of
             None \<Rightarrow> ace
           | Some text \<Rightarrow>
               (let relPath = rel (ProjectRoot ace) path
                in ace\<lparr>IndexedCode := AList.update relPath text (IndexedCode ace),
                       EExports := AList.update relPath
                                     (map symbolToExport (extractExports text)) (EExports ace),
                       EDependencies := AList.update relPath (extractDependencies text)
                                          (EDependencies ace)\<rparr>))"

fun walk ::
  "(string \<Rightarrow> string \<Rightarrow> string) \<Rightarrow> fsnode \<Rightarrow> AugmentContextEngine \<Rightarrow> AugmentContextEngine \<times> bool"
and walkAll ::
  "(string \<Rightarrow> string \<Rightarrow> string) \<Rightarrow> fsnode list \<Rightarrow> AugmentContextEngine
   \<Rightarrow> AugmentContextEngine \<times> bool" where
  \<comment> \<open>the second component is \<open>False\<close> when the walk stops with an error\<close>
  "walk rel (FsFile path content) ace = (indexFile rel path content ace, True)"
| "walk rel (FsDir path entries) ace =
     (if skipDir path then (ace, True) else walkAll rel entries ace)"
| "walk rel (FsDirUnreadable path) ace = (ace, False)"
| "walk rel (FsLstatFails path) ace = (ace, False)"
| "walkAll rel [] ace = (ace, True)"
| "walkAll rel (n # ns) ace =
     (case walk rel n ace of
        (ace', False) \<Rightarrow> (ace', False)
      | (ace', True) \<Rightarrow> walkAll rel ns ace')"

datatype index_error = FailedToIndexProject

definition IndexProject ::
  "(string \<Rightarrow> string \<Rightarrow> string) \<Rightarrow> fsnode \<Rightarrow> AugmentContextEngine
   \<Rightarrow> AugmentContextEngine \<times> index_error option" where
  \<comment> \<open>the engine is changed in place; the pair is the engine after the call and the error\<close>
  "IndexProject rel tree ace =
     (case walk rel tree ace of
        (ace', False) \<Rightarrow> (ace', Some FailedToIndexProject)
      | (ace', True) \<Rightarrow> (ace'\<lparr>Initialized := True\<rparr>, None))"

definition importExts :: "string list" where
  "importExts = [''.ts'', ''.tsx'', ''/index.ts'', ''/index.tsx'']"

definition relatedStep ::
  "(string \<Rightarrow> string \<Rightarrow> string) \<Rightarrow> AugmentContextEngine \<Rightarrow> string \<Rightarrow> string gomap \<Rightarrow> string
   \<Rightarrow> string gomap" where
  \<comment> \<open>one dependency; \<open>resolve targetFile dep\<close> is
      \<open>filepath.Clean(filepath.Join(filepath.Dir(targetFile), dep))\<close>\<close>
  "relatedStep resolve ace targetFile related dep =
     (if HasPrefix dep ''.'' then
        (let resolvedPath = resolve targetFile dep
         in case find (\<lambda>ext. map_of (IndexedCode ace) (resolvedPath @ ext) \<noteq> None) importExts of
              None \<Rightarrow> related
            | Some ext \<Rightarrow>
                (case map_of (IndexedCode ace) (resolvedPath @ ext) of
                   None \<Rightarrow> related
                 | Some code \<Rightarrow> AList.update (resolvedPath @ ext) code related))
      else related)"

definition GetRelatedCode ::
  "(string \<Rightarrow> string \<Rightarrow> string) \<Rightarrow> AugmentContextEngine \<Rightarrow> string \<Rightarrow> string gomap" where
  "GetRelatedCode resolve ace targetFile =
     (if \<not> Initialized ace then []
      else let targetDeps = lookupList (EDependencies ace) targetFile
           in if length targetDeps = 0 then []
              else foldl (relatedStep resolve ace targetFile) [] targetDeps)"

definition GetExportContext ::
  "(string \<Rightarrow> string \<Rightarrow> string) \<Rightarrow> string range_order \<Rightarrow> AugmentContextEngine \<Rightarrow> string
   \<Rightarrow> ExportedFunction list gomap" where
  "GetExportContext resolve ordR ace targetFile =
     (if \<not> Initialized ace then []
      else foldl (\<lambda>ctx (relPath, code).
                    case map_of (EExports ace) relPath of
                      None \<Rightarrow> ctx
                    | Some exports \<Rightarrow> AList.update relPath exports ctx)
             [] (rangeMap ordR (GetRelatedCode resolve ace targetFile)))"

text \<open>
  The statistics. The average is a \<open>float64\<close> quotient; it is kept as its two integer
  operands.
\<close>

datatype stat = StatInt int | StatQuotient int int

definition GetProjectStats :: "AugmentContextEngine \<Rightarrow> stat gomap" where
  \<comment> \<open>the two loops add lengths, so the order of their visit does not matter\<close>
  "GetProjectStats ace =
     (if \<not> Initialized ace then []
      else let totalExports = sum_list (map (\<lambda>(p, exports). int (length exports)) (EExports ace));
               totalDependencies =
                 sum_list (map (\<lambda>(p, deps). int (length deps)) (EDependencies ace));
               fileCount = int (length (IndexedCode ace))
           in [(''files_indexed'', StatInt fileCount),
               (''total_exports'', StatInt totalExports),
               (''total_dependencies'', StatInt totalDependencies),
               (''avg_exports_per_file'', StatQuotient totalExports fileCount)])"

definition exportToFilesOf ::
  "ExportedFunction list range_order \<Rightarrow> AugmentContextEngine \<Rightarrow> string \<Rightarrow> string list gomap" where
  \<comment> \<open>the first loop of \<open>FindSimilarFiles\<close>: export name to the files that export it\<close>
  "exportToFilesOf ordE ace targetFile =
     foldl (\<lambda>m (filePath, exports).
              if filePath = targetFile then m
              else foldl (\<lambda>m exp. AList.update (Name exp) (lookupList m (Name exp) @ [filePath]) m)
                     m exports)
       [] (rangeMap ordE (EExports ace))"

definition similarFilesOf ::
  "string list gomap \<Rightarrow> ExportedFunction list \<Rightarrow> int gomap" where
  \<comment> \<open>the second loop: \<open>similarFiles[file]++\<close> for every file of every target export\<close>
  "similarFilesOf exportToFiles targetExports =
     foldl (\<lambda>sm targetExp.
              case map_of exportToFiles (Name targetExp) of
                None \<Rightarrow> sm
              | Some files \<Rightarrow>
                  foldl (\<lambda>sm file. AList.update file (lookupCount sm file + 1) sm) sm files)
       [] targetExports"

fun collectUpTo :: "int \<Rightarrow> string list \<Rightarrow> string list \<Rightarrow> string list" where
  \<comment> \<open>the third loop: append, then stop once \<open>len(result) >= limit\<close>\<close>
  "collectUpTo limit result [] = result"
| "collectUpTo limit result (file # files) =
     (let result' = result @ [file]
      in if limit \<le> int (length result') then result' else collectUpTo limit result' files)"

definition FindSimilarFiles ::
  "ExportedFunction list range_order \<Rightarrow> int range_order \<Rightarrow> AugmentContextEngine \<Rightarrow> string \<Rightarrow> int
   \<Rightarrow> string list" where
  "FindSimilarFiles ordE ordS ace targetFile limit =
     (if \<not> Initialized ace \<or> limit \<le> 0 then []
      else let targetExports = lookupList (EExports ace) targetFile
           in if length targetExports = 0 then []
              else let exportToFiles = exportToFilesOf ordE ace targetFile;
                       similarFiles = similarFilesOf exportToFiles targetExports
                   in collectUpTo limit [] (map fst (rangeMap ordS similarFiles)))"

datatype ctx_value =
    CtxFile string
  | CtxExports "ExportedFunction list"
  | CtxDependencies "string list"
  | CtxRelated "string gomap"
  | CtxSimilar "string list"

definition GetFileContext ::
  "(string \<Rightarrow> string \<Rightarrow> string) \<Rightarrow> ExportedFunction list range_order \<Rightarrow> int range_order
   \<Rightarrow> AugmentContextEngine \<Rightarrow> string \<Rightarrow> ctx_value gomap" where
  "GetFileContext resolve ordE ordS ace targetFile =
     (if \<not> Initialized ace then []
      else [(''file'', CtxFile targetFile),
            (''exports'', CtxExports (lookupList (EExports ace) targetFile)),
            (''dependencies'', CtxDependencies (lookupList (EDependencies ace) targetFile)),
            (''related_files'', CtxRelated (GetRelatedCode resolve ace targetFile)),
            (''similar_files'', CtxSimilar (FindSimilarFiles ordE ordS ace targetFile 3))])"

section \<open>The context-aware renderer\<close>

definition generateMockSetup :: "string range_order \<Rightarrow> string gomap \<Rightarrow> string" where
  \<comment> \<open>\<open>mockName\<close> is computed and never written\<close>
  "generateMockSetup ordR relatedFiles =
     ''// Mock setup for related dependencies'' @ nl
     @ concat (map (\<lambda>(filePath, code).
                      ''// jest.mock('' @ q @ ''../'' @ TrimSuffix filePath ''.ts'' @ q @ '');'' @ nl)
                 (rangeMap ordR relatedFiles))"

definition generateImports :: "string \<Rightarrow> ExportedFunction list \<Rightarrow> string" where
  "generateImports filePath exports =
     ''import { '' @ join '', '' (map Name exports)
     @ '' } from '' @ q @ ''../'' @ TrimSuffix filePath ''.ts'' @ q @ '';'' @ nl"

definition generateFrameworkImports :: "string \<Rightarrow> string" where
  "generateFrameworkImports framework =
     (if framework = ''vitest''
      then ''import { describe, it, expect, beforeEach, afterEach, vi } from '' @ q @ ''vitest''
           @ q @ '';''
      else ''import { describe, it, expect, beforeEach, afterEach, jest } from '' @ q
           @ ''@jest/globals'' @ q @ '';'')"

definition generateSampleInput :: "(string \<Rightarrow> string) \<Rightarrow> string \<Rightarrow> string" where
  "generateSampleInput unicodeLower typeStr0 =
     (let typeStr = ToLower unicodeLower typeStr0
      in if Contains typeStr ''string'' then q @ ''sample'' @ q
         else if Contains typeStr ''number'' then ''42''
         else if Contains typeStr ''boolean'' then ''true''
         else if Contains typeStr ''array'' then ''[]''
         else if Contains typeStr ''object'' then ''{}''
         else ''null'')"

definition generateHappyPathTest :: "(string \<Rightarrow> string) \<Rightarrow> ExportedFunction \<Rightarrow> string" where
  "generateHappyPathTest unicodeLower exp = concat [
     ''  it('' @ q @ ''should work with valid inputs'' @ q @ '', () => {'' @ nl,
     ''    // Arrange'' @ nl,
     concat (map (\<lambda>param. ''    const '' @ PName param @ '' = ''
                              @ generateSampleInput unicodeLower (PType param) @ '';'' @ nl)
               (Parameters exp)),
     nl @ ''    // Act'' @ nl,
     ''    const result = '' @ Name exp @ ''('',
     join '', '' (map PName (Parameters exp)),
     '');'' @ nl @ nl,
     ''    // Assert'' @ nl,
     ''    expect(result).toBeDefined();'' @ nl,
     ''    // TODO: Add specific assertions'' @ nl,
     ''  });'' @ nl]"

definition generateEdgeCaseTests :: "ExportedFunction \<Rightarrow> string" where
  "generateEdgeCaseTests exp = concat [
     (if 0 < length (Parameters exp) then concat [
        ''  it('' @ q @ ''[EDGE CASE] should handle null/undefined inputs'' @ q @ '', () => {'' @ nl,
        ''    // TODO: Test with null/undefined values'' @ nl,
        ''    expect(true).toBe(true);'' @ nl,
        ''  });'' @ nl @ nl]
      else []),
     ''  it('' @ q @ ''[EDGE CASE] should handle empty inputs'' @ q @ '', () => {'' @ nl,
     ''    // TODO: Test with empty values'' @ nl,
     ''    expect(true).toBe(true);'' @ nl,
     ''  });'' @ nl]"

definition generateAsyncTest :: "(string \<Rightarrow> string) \<Rightarrow> ExportedFunction \<Rightarrow> string" where
  "generateAsyncTest unicodeLower exp = concat [
     ''  it('' @ q @ ''should handle async operations'' @ q @ '', async () => {'' @ nl,
     ''    // Arrange'' @ nl,
     concat (map (\<lambda>param. ''    const '' @ PName param @ '' = ''
                              @ generateSampleInput unicodeLower (PType param) @ '';'' @ nl)
               (Parameters exp)),
     nl @ ''    // Act'' @ nl,
     ''    const result = await '' @ Name exp @ ''('',
     join '', '' (map PName (Parameters exp)),
     '');'' @ nl @ nl,
     ''    // Assert'' @ nl,
     ''    expect(result).toBeDefined();'' @ nl,
     ''  });'' @ nl]"

definition generateErrorHandlingTest :: "ExportedFunction \<Rightarrow> string" where
  "generateErrorHandlingTest exp = concat [
     ''  it('' @ q @ ''should handle errors gracefully'' @ q @ '', () => {'' @ nl,
     ''    // TODO: Test error scenarios'' @ nl,
     ''    expect(true).toBe(true);'' @ nl,
     ''  });'' @ nl]"

definition generateDescribeBlock :: "(string \<Rightarrow> string) \<Rightarrow> ExportedFunction \<Rightarrow> string \<Rightarrow> string" where
  "generateDescribeBlock unicodeLower exp sourceCode = concat [
     ''describe('' @ q @ Name exp @ q @ '', () => {'' @ nl,
     ''  let result: any;'' @ nl @ nl,
     ''  it('' @ q @ ''should be defined'' @ q @ '', () => {'' @ nl,
     ''    expect('' @ Name exp @ '').toBeDefined();'' @ nl,
     ''  });'' @ nl @ nl,
     ''  it('' @ q @ ''should be a '' @ Type exp @ q @ '', () => {'' @ nl,
     ''    expect(typeof '' @ Name exp @ '').toBe('' @ q @ getTypeofValue unicodeLower (Type exp) @ q
       @ '');'' @ nl,
     ''  });'' @ nl @ nl,
     generateHappyPathTest unicodeLower exp @ nl,
     generateEdgeCaseTests exp @ nl,
     (if IsAsync exp then generateAsyncTest unicodeLower exp @ nl else []),
     generateErrorHandlingTest exp,
     ''});'' @ nl]"

definition generateTestCodeWithContext ::
  "(string \<Rightarrow> string) \<Rightarrow> string range_order \<Rightarrow> string \<Rightarrow> string \<Rightarrow> string \<Rightarrow> ExportedFunction list \<Rightarrow> string gomap
   \<Rightarrow> string" where
  \<comment> \<open>the second argument is the \<open>Framework\<close> field of the generator\<close>
  "generateTestCodeWithContext unicodeLower ordR framework filePath sourceCode exports relatedFiles = concat [
     ''/**'' @ nl,
     '' * Auto-generated test file (Augment Context Engine)'' @ nl,
     '' * Source: '' @ filePath @ nl,
     '' * Generated with project-wide context analysis'' @ nl,
     '' */'' @ nl @ nl,
     generateImports filePath exports @ nl,
     generateFrameworkImports framework @ nl,
     (if 0 < length relatedFiles then generateMockSetup ordR relatedFiles @ nl else []),
     concat (map (\<lambda>exp. generateDescribeBlock unicodeLower exp sourceCode @ nl) exports)]"

definition GenerateTestWithProjectContext ::
  "(string \<Rightarrow> string) \<Rightarrow> (string \<Rightarrow> string \<Rightarrow> string) \<Rightarrow> ExportedFunction list range_order \<Rightarrow> int range_order
   \<Rightarrow> string range_order \<Rightarrow> AugmentContextEngine \<Rightarrow> string \<Rightarrow> string \<Rightarrow> string
   \<Rightarrow> gen_error + string" where
  \<comment> \<open>the engine and the framework are the two fields of the generator. The two type
      assertions cannot fail on what \<open>GetFileContext\<close> stores; the branches for other values
      follow the source: \<open>!ok\<close> for the checked one, a panic for the unchecked one.\<close>
  "GenerateTestWithProjectContext unicodeLower resolve ordE ordS ordR ace framework filePath sourceCode =
     (let fileContext = GetFileContext resolve ordE ordS ace filePath
      in case map_of fileContext ''exports'' of
           None \<Rightarrow> GenerateTest [] sourceCode framework
         | Some (CtxExports exports) \<Rightarrow>
             if length exports = 0 then Inl (NoExportedSymbols filePath)
             else (case map_of fileContext ''related_files'' of
                     Some (CtxRelated relatedFiles) \<Rightarrow>
                       Inr (generateTestCodeWithContext unicodeLower ordR framework filePath sourceCode
                              exports relatedFiles)
                   | _ \<Rightarrow> Inl TypeAssertionPanic)
         | Some _ \<Rightarrow> Inl (NoExportedSymbols filePath))"

section \<open>The orchestrator (main)\<close>

record workItem =
  item_path :: string
  item_code :: string

datatype cli_error = CLISetupFailed | CLINotAuthenticated | CLIRunFailed | CLIEmptyOutput

datatype unit_error = GenerationFailed cli_error

record TestResult =
  SourcePath :: string
  TestPath :: string
  TestCode :: string
  Error :: "unit_error option"

definition DefaultTestPath ::
  "(string \<Rightarrow> string option) \<Rightarrow> (string \<Rightarrow> string \<Rightarrow> string) \<Rightarrow> string \<Rightarrow> string \<Rightarrow> string
   \<Rightarrow> string" where
  \<comment> \<open>scan.go. \<open>relDot p\<close> is \<open>filepath.Rel(".", p)\<close>, \<open>None\<close> when it returns an error;
      \<open>joinPath\<close> is \<open>filepath.Join\<close>\<close>
  "DefaultTestPath relDot joinPath tsPath framework outDir =
     (let ext = (if framework = ''vitest'' then ''.spec.ts'' else ''.test.ts'');
          base = TrimSuffix tsPath (Ext tsPath)
      in if outDir = [] then base @ ext
         else let rel = (case relDot tsPath of None \<Rightarrow> tsPath | Some r \<Rightarrow> r);
                  base = TrimSuffix rel (Ext rel)
              in joinPath outDir (base @ ext))"

text \<open>
  The body of one goroutine between taking and giving back its slot. \<open>testPathOf\<close> is
  \<open>DefaultTestPath\<close> with the framework and the output directory of the run; \<open>gen\<close> is
  what \<open>gen.GenerateTestWithAugmentCLI\<close>, an external program, returns for the item.
\<close>

definition unitResult ::
  "(string \<Rightarrow> string) \<Rightarrow> (workItem \<Rightarrow> cli_error + string) \<Rightarrow> workItem \<Rightarrow> TestResult" where
  "unitResult testPathOf gen wi =
     (case gen wi of
        Inl err \<Rightarrow> \<lparr>SourcePath = item_path wi, TestPath = testPathOf (item_path wi), TestCode = [],
                    Error = Some (GenerationFailed err)\<rparr>
      | Inr testCode \<Rightarrow> \<lparr>SourcePath = item_path wi, TestPath = testPathOf (item_path wi),
                         TestCode = testCode, Error = None\<rparr>)"

text \<open>
  The worker pool as the interleaving of its goroutines. Every goroutine goes through
  four phases: \<open>Waiting\<close> before its send on \<open>semaphore\<close> succeeds, \<open>Generating\<close> while it
  holds a slot and works, \<open>Reported\<close> once its result is in the \<open>results\<close> channel (the
  deferred receive from \<open>semaphore\<close> has not run yet), \<open>Finished\<close> after the deferred
  functions. \<open>slots\<close> is the number of tokens in the \<open>semaphore\<close> channel, whose capacity
  is \<open>maxWorkers\<close>: a send on a full channel blocks, and so does a receive from an empty
  one. The \<open>results\<close> channel has room for one result per item.
\<close>

datatype phase = Waiting | Generating | Reported | Finished

record pool =
  phases :: "phase list"
  slots :: nat
  results :: "TestResult list"

datatype event = Acquire nat | Report nat | Release nat

definition initPool :: "workItem list \<Rightarrow> pool" where
  "initPool workQueue = \<lparr>phases = replicate (length workQueue) Waiting, slots = 0, results = []\<rparr>"

fun fire ::
  "nat \<Rightarrow> (string \<Rightarrow> string) \<Rightarrow> (workItem \<Rightarrow> cli_error + string) \<Rightarrow> workItem list \<Rightarrow> event
   \<Rightarrow> pool \<Rightarrow> pool option" where
  \<comment> \<open>one step of goroutine \<open>i\<close>; \<open>None\<close> when that goroutine cannot take the step\<close>
  "fire maxWorkers testPathOf gen workQueue (Acquire i) s =
     (if i < length (phases s) \<and> phases s ! i = Waiting \<and> slots s < maxWorkers
      then Some (s\<lparr>phases := (phases s)[i := Generating], slots := slots s + 1\<rparr>)
      else None)"
| "fire maxWorkers testPathOf gen workQueue (Report i) s =
     (if i < length (phases s) \<and> i < length workQueue \<and> phases s ! i = Generating
         \<and> length (results s) < length workQueue
      then Some (s\<lparr>phases := (phases s)[i := Reported],
                   results := results s @ [unitResult testPathOf gen (workQueue ! i)]\<rparr>)
      else None)"
| "fire maxWorkers testPathOf gen workQueue (Release i) s =
     (if i < length (phases s) \<and> phases s ! i = Reported \<and> 0 < slots s
      then Some (s\<lparr>phases := (phases s)[i := Finished], slots := slots s - 1\<rparr>)
      else None)"

fun runEvents ::
  "nat \<Rightarrow> (string \<Rightarrow> string) \<Rightarrow> (workItem \<Rightarrow> cli_error + string) \<Rightarrow> workItem list \<Rightarrow> event list
   \<Rightarrow> pool \<Rightarrow> pool option" where
  "runEvents maxWorkers testPathOf gen workQueue [] s = Some s"
| "runEvents maxWorkers testPathOf gen workQueue (e # es) s =
     (case fire maxWorkers testPathOf gen workQueue e s of
        None \<Rightarrow> None
      | Some s' \<Rightarrow> runEvents maxWorkers testPathOf gen workQueue es s')"

definition holdsSlot :: "phase \<Rightarrow> bool" where
  "holdsSlot p = (p = Generating \<or> p = Reported)"

definition inFlight :: "pool \<Rightarrow> nat" where
  \<comment> \<open>the instrumented counter: the units between acquiring and releasing\<close>
  "inFlight s = length (filter holdsSlot (phases s))"

text \<open>The loop that drains the closed \<open>results\<close> channel, and the decision after it.\<close>

definition collectResults :: "TestResult list \<Rightarrow> TestResult list \<times> nat" where
  "collectResults rs =
     foldl (\<lambda>(testResults, failedCount) result.
              if Error result \<noteq> None then (testResults, failedCount + 1)
              else (testResults @ [result], failedCount))
       ([], 0) rs"

datatype run_status =
    FatalAllGenerationsFailed
  | NoTestsGenerated
  | Generated "TestResult list"

definition aggregate :: "TestResult list \<Rightarrow> run_status" where
  "aggregate rs =
     (case collectResults rs of
        (testResults, failedCount) \<Rightarrow>
          if length testResults = 0
          then (if 0 < failedCount then FatalAllGenerationsFailed else NoTestsGenerated)
          else Generated testResults)"

section \<open>The default export, read from the text\<close>




section \<open>Concrete inputs\<close>

definition addSource :: string where
  "addSource = ''export function add(a: number, b: number): number { return a+b }''"

definition addSymbol :: exportedSymbol where
  "addSymbol = \<lparr>name = ''add'', kind = ''function'', isAsync = False, params = [''a'', ''b''],
     isDefault = False\<rparr>"

definition classThenFunction :: string where
  "classThenFunction = ''export class A {}'' @ [CHR 0x0A] @ ''export function f() {}''"


definition emptyAnalysis :: AugmentCodeAnalysis where
  \<comment> \<open>what the JSON decoder returns for the output \<^verbatim>\<open>{}\<close>\<close>
  "emptyAnalysis = \<lparr>FilePath = [], Exports = [], Dependencies = [], Complexity = [],
     ADescription = [], TestScenarios = []\<rparr>"

definition noExports :: string where
  "noExports = ''const x = 1;''"




definition addExport :: ExportedFunction where
  "addExport = \<lparr>Name = ''add'', Type = ''function'', IsAsync = False,
     Parameters = [\<lparr>PName = ''a'', PType = ''number'', Optional = False, Default = []\<rparr>,
                   \<lparr>PName = ''b'', PType = ''number'', Optional = False, Default = []\<rparr>],
     ReturnType = ''number'', Description = []\<rparr>"

definition addScenario :: TestScenario where
  \<comment> \<open>a scenario as the JSON decoder delivers it: numbers are \<open>float64\<close>\<close>
  "addScenario = \<lparr>SName = ''add - happy path'', SDescription = ''Test add with valid inputs'',
     Inputs = [(''a'', VFloat64 ''1''), (''b'', VFloat64 ''2'')],
     Expected = VFloat64 ''3'', EdgeCase = False\<rparr>"

definition addAnalysis :: AugmentCodeAnalysis where
  "addAnalysis = \<lparr>FilePath = ''add.ts'', Exports = [addExport], Dependencies = [],
     Complexity = ''low'', ADescription = ''Adds two numbers'',
     TestScenarios = [addScenario]\<rparr>"

definition asciiLower :: "string \<Rightarrow> string" where
  \<comment> \<open>a value for the Unicode path of \<open>ToLower\<close>; the texts below are ASCII and do not
      reach it\<close>
  "asciiLower s = map lowerChar s"

definition listOrder :: "'v range_order" where
  \<comment> \<open>one order a \<open>range\<close> may take\<close>
  "listOrder m = map fst m"

definition reverseOrder :: "'v range_order" where
  \<comment> \<open>another one\<close>
  "reverseOrder m = rev (map fst m)"

definition twoRelated :: "string gomap" where
  "twoRelated = [(''lib/a.ts'', ''export const a = 1''), (''lib/b.ts'', ''export const b = 2'')]"

definition similarTree :: fsnode where
  "similarTree = FsDir ''.'' [
     FsFile ''a.ts'' (Some ''export function x() {} export function y() {}''),
     FsFile ''b.ts'' (Some ''export function x() {}''),
     FsFile ''t.ts'' (Some ''export function x() {} export function y() {}'')]"

definition similarEngine :: AugmentContextEngine where
  "similarEngine = fst (IndexProject (\<lambda>root p. p) similarTree (NewAugmentContextEngine ''.''))"

definition keepImport :: "string \<Rightarrow> string \<Rightarrow> string" where
  \<comment> \<open>a resolution of import targets, for files in the root directory\<close>
  "keepImport targetFile dep = dep"

definition addTree :: fsnode where
  "addTree = FsDir ''.'' [FsFile ''add.ts'' (Some addSource)]"

definition addEngine :: AugmentContextEngine where
  "addEngine = fst (IndexProject (\<lambda>root p. p) addTree (NewAugmentContextEngine ''.''))"

definition twoItems :: "workItem list" where
  "twoItems = [\<lparr>item_path = ''a.ts'', item_code = ''export class A {}''\<rparr>,
               \<lparr>item_path = ''b.ts'', item_code = ''export class B {}''\<rparr>]"

definition failsOnB :: "workItem \<Rightarrow> cli_error + string" where
  "failsOnB wi = (if item_path wi = ''b.ts'' then Inl CLIRunFailed else Inr ''// tests'')"

definition specPath :: "string \<Rightarrow> string" where
  \<comment> \<open>the test path for vitest and no output directory\<close>
  "specPath p = DefaultTestPath (\<lambda>p. Some p) (\<lambda>a b. a @ ''/'' @ b) p ''vitest'' []"

section \<open>Matches are found from left to right\<close>

lemma scanAll_start_ge: "m \<in> set (scanAll r skip pos s) \<Longrightarrow> pos \<le> m_start m"
proof (induction s arbitrary: skip pos)
  case Nil
  then show ?case by simp
next
  case (Cons c cs)
  then show ?case
    by (fastforce simp: Let_def split: if_splits list.splits prod.splits)
qed

lemma scanAll_sorted: "sorted_wrt (<) (map m_start (scanAll r skip pos s))"
proof (induction s arbitrary: skip pos)
  case Nil
  then show ?case by simp
next
  case (Cons c cs)
  have ge: "\<And>m k. m \<in> set (scanAll r k (Suc pos) cs) \<Longrightarrow> pos < m_start m"
    using scanAll_start_ge by fastforce
  show ?case
    using Cons.IH ge by (auto simp: Let_def split: list.splits prod.splits)
qed

lemma findAll_sorted: "sorted_wrt (<) (map m_start (FindAllStringSubmatch r s))"
  by (simp add: FindAllStringSubmatch_def scanAll_sorted)



lemma defaultSymbols_length: "length (defaultSymbols code) \<le> 1"
  by (simp add: defaultSymbols_def split: list.splits)

lemma kinds_of_symbols:
  "map kind (map funcSymbol xs) = replicate (length xs) ''function''"
  "map kind (map constSymbol xs) = replicate (length xs) ''const''"
  "map kind (map classSymbol xs) = replicate (length xs) ''class''"
  by (simp_all add: map_replicate_const funcSymbol_def constSymbol_def classSymbol_def comp_def)

lemma kinds_of_default:
  "map kind (defaultSymbols code) = replicate (length (defaultSymbols code)) ''default''"
  by (simp add: defaultSymbols_def defaultSymbol_def split: list.splits)

lemma count_update:
  "i < length xs \<Longrightarrow>
   length (filter P (xs[i := y])) + (if P (xs ! i) then 1 else 0)
     = length (filter P xs) + (if P y then 1 else 0)"
proof (induction xs arbitrary: i)
  case Nil
  then show ?case by simp
next
  case (Cons x xs)
  show ?case
  proof (cases i)
    case 0
    then show ?thesis by simp
  next
    case (Suc j)
    with Cons.prems have "j < length xs" by simp
    from Cons.IH[OF this] Suc show ?thesis by simp
  qed
qed

lemma filter_nonempty: "i < length xs \<Longrightarrow> P (xs ! i) \<Longrightarrow> 0 < length (filter P xs)"
  by (metis filter_empty_conv length_greater_0_conv nth_mem)

lemma fire_inv:
  assumes "inFlight s = slots s \<and> slots s \<le> n" and "fire n tp gen wq e s = Some s'"
  shows "inFlight s' = slots s' \<and> slots s' \<le> n"
proof (cases e)
  case (Acquire i)
  with assms(2) have g: "i < length (phases s)" "phases s ! i = Waiting" "slots s < n"
    and s': "s' = s\<lparr>phases := (phases s)[i := Generating], slots := slots s + 1\<rparr>"
    by (auto split: if_splits)
  from count_update[OF g(1), of holdsSlot Generating] g(2)
  have "inFlight s' = inFlight s + 1"
    by (simp add: s' inFlight_def holdsSlot_def)
  moreover have "slots s' = slots s + 1" by (simp add: s')
  ultimately show ?thesis using assms(1) g(3) by arith
next
  case (Report i)
  with assms(2) have g: "i < length (phases s)" "phases s ! i = Generating"
    and s': "s' = s\<lparr>phases := (phases s)[i := Reported],
                   results := results s @ [unitResult tp gen (wq ! i)]\<rparr>"
    by (auto split: if_splits)
  from count_update[OF g(1), of holdsSlot Reported] g(2)
  have "inFlight s' = inFlight s"
    by (simp add: s' inFlight_def holdsSlot_def)
  moreover have "slots s' = slots s" by (simp add: s')
  ultimately show ?thesis using assms(1) by arith
next
  case (Release i)
  with assms(2) have g: "i < length (phases s)" "phases s ! i = Reported" "0 < slots s"
    and s': "s' = s\<lparr>phases := (phases s)[i := Finished], slots := slots s - 1\<rparr>"
    by (auto split: if_splits)
  from count_update[OF g(1), of holdsSlot Finished] g(2)
  have "inFlight s' + 1 = inFlight s"
    by (simp add: s' inFlight_def holdsSlot_def)
  moreover have "slots s' = slots s - 1" by (simp add: s')
  ultimately show ?thesis using assms(1) g(3) by arith
qed

lemma runEvents_inv:
  "inFlight s = slots s \<and> slots s \<le> n \<Longrightarrow> runEvents n tp gen wq es s = Some s'
   \<Longrightarrow> inFlight s' = slots s' \<and> slots s' \<le> n"
proof (induction es arbitrary: s)
  case Nil
  then show ?case by simp
next
  case (Cons e es)
  from Cons.prems(2) obtain s1 where f: "fire n tp gen wq e s = Some s1"
    and r: "runEvents n tp gen wq es s1 = Some s'"
    by (auto split: option.splits)
  from fire_inv[OF Cons.prems(1) f] have "inFlight s1 = slots s1 \<and> slots s1 \<le> n" .
  from Cons.IH[OF this r] show ?case .
qed

lemma init_inv: "inFlight (initPool wq) = slots (initPool wq) \<and> slots (initPool wq) \<le> n"
  by (simp add: initPool_def inFlight_def holdsSlot_def)

lemma collectResults_eq:
  "collectResults rs =
     (filter (\<lambda>r. Error r = None) rs, length (filter (\<lambda>r. Error r \<noteq> None) rs))"
proof -
  have "foldl (\<lambda>(testResults, failedCount) result.
              if Error result \<noteq> None then (testResults, failedCount + 1)
              else (testResults @ [result], failedCount)) (acc, n) rs
        = (acc @ filter (\<lambda>r. Error r = None) rs, n + length (filter (\<lambda>r. Error r \<noteq> None) rs))"
    for acc n
    by (induction rs arbitrary: acc n) auto
  then show ?thesis by (simp add: collectResults_def)
qed

section \<open>Lower case of ASCII text\<close>

lemma ToLower_ascii: "isASCII s \<Longrightarrow> ToLower unicodeLower s = map lowerChar s"
  by (simp add: ToLower_def)

lemma ToLower_ascii_same: "isASCII s \<Longrightarrow> ToLower f s = ToLower g s"
  by (simp add: ToLower_def)

section \<open>The default pattern, match by match\<close>

lemma rev_upt_Suc: "a \<le> m \<Longrightarrow> rev [a..<Suc m] = m # rev [a..<m]"
  by simp





































section \<open>The claims\<close>

text \<open>
  Claim C1: two runs of the code synthesizer on the same input model render the same
  text; in particular the Arrange bindings of a scenario come in the same order on every
  run. The renderer ranges over the Go map \<open>scenario.Inputs\<close>, and the mock setup over the
  map of related files, so the text follows the order the runtime picks for the loop.
  For the export \<open>add(a, b)\<close> with a scenario of two inputs, two orders that each visit
  every key once give two different texts, for one test case and for the whole file; so do
  the sample inputs the scenario synthesizer builds for two parameters, and so does the
  mock setup for two related files.
\<close>

theorem render_depends_on_range_order:
  "valid_order listOrder (Inputs addScenario) \<and> valid_order reverseOrder (Inputs addScenario)
   \<and> generateTestCase listOrder addExport addScenario ''vitest''
       \<noteq> generateTestCase reverseOrder addExport addScenario ''vitest''
   \<and> GenerateTestWithAugment asciiLower (OutputParsed addAnalysis) listOrder ''add.ts'' addSource ''vitest''
       \<noteq> GenerateTestWithAugment asciiLower (OutputParsed addAnalysis) reverseOrder ''add.ts'' addSource ''vitest''
   \<and> valid_order listOrder (generateSampleInputs asciiLower (Parameters addExport))
   \<and> valid_order reverseOrder (generateSampleInputs asciiLower (Parameters addExport))
   \<and> generateTestCase listOrder addExport (hd (generateBasicScenarios asciiLower addExport)) ''vitest''
       \<noteq> generateTestCase reverseOrder addExport (hd (generateBasicScenarios asciiLower addExport)) ''vitest''
   \<and> valid_order listOrder twoRelated \<and> valid_order reverseOrder twoRelated
   \<and> generateMockSetup listOrder twoRelated \<noteq> generateMockSetup reverseOrder twoRelated"
  by code_simp

text \<open>
  The text of claim C2 says that the symbols come in the order of their first occurrence
  in the source text across the four declaration forms. For a class declared at offset 0
  and a function declared at offset 18 the function symbol comes first.
\<close>

theorem extraction_order_counterexample:
  "map m_start (FindAllStringSubmatch classPattern classThenFunction) = [0]
   \<and> map m_start (FindAllStringSubmatch funcPattern classThenFunction) = [18]
   \<and> map name (extractExports classThenFunction) = [''f'', ''A'']
   \<and> map kind (extractExports classThenFunction) = [''function'', ''class'']"
  by code_simp

text \<open>
  Claim C2, as the code has it: the extractor runs one pass per declaration form and
  appends the passes, so the symbols are grouped by form in the fixed order function,
  arrow-function constant, class, default export; inside each of the first three groups
  they follow the text (the offsets of their matches increase strictly), and the last
  group has at most one symbol.
\<close>

theorem extraction_order_by_form:
  "extractExports code =
     map funcSymbol (FindAllStringSubmatch funcPattern code)
     @ map constSymbol (FindAllStringSubmatch constPattern code)
     @ map classSymbol (FindAllStringSubmatch classPattern code)
     @ defaultSymbols code
   \<and> map kind (extractExports code) =
       replicate (length (FindAllStringSubmatch funcPattern code)) ''function''
       @ replicate (length (FindAllStringSubmatch constPattern code)) ''const''
       @ replicate (length (FindAllStringSubmatch classPattern code)) ''class''
       @ replicate (length (defaultSymbols code)) ''default''
   \<and> sorted_wrt (<) (map m_start (FindAllStringSubmatch funcPattern code))
   \<and> sorted_wrt (<) (map m_start (FindAllStringSubmatch constPattern code))
   \<and> sorted_wrt (<) (map m_start (FindAllStringSubmatch classPattern code))
   \<and> length (defaultSymbols code) \<le> 1"
proof -
  have "map kind (extractExports code) =
       replicate (length (FindAllStringSubmatch funcPattern code)) ''function''
       @ replicate (length (FindAllStringSubmatch constPattern code)) ''const''
       @ replicate (length (FindAllStringSubmatch classPattern code)) ''class''
       @ replicate (length (defaultSymbols code)) ''default''"
    unfolding extractExports_def map_append kinds_of_symbols
    using kinds_of_default by simp
  then show ?thesis
    using findAll_sorted defaultSymbols_length by (simp add: extractExports_def)
qed

text \<open>
  Claim C3: the similar-files operation returns up to \<open>limit\<close> files by descending score.
  The scores are computed (here \<open>a.ts\<close> shares two export names with the target and \<open>b.ts\<close>
  one), but the result is filled by ranging over the score map and stopping at the limit;
  no sort takes place. Under an order that visits \<open>b.ts\<close> first, limit 1 returns \<open>b.ts\<close>
  and leaves out the better \<open>a.ts\<close>, and limit 2 returns the two in ascending score.
\<close>

theorem similar_files_not_by_score:
  "Initialized similarEngine
   \<and> valid_order listOrder (EExports similarEngine)
   \<and> similarFilesOf (exportToFilesOf listOrder similarEngine ''t.ts'')
        (lookupList (EExports similarEngine) ''t.ts'') = [(''a.ts'', 2), (''b.ts'', 1)]
   \<and> valid_order reverseOrder [(''a.ts'', 2 :: int), (''b.ts'', 1)]
   \<and> FindSimilarFiles listOrder reverseOrder similarEngine ''t.ts'' 1 = [''b.ts'']
   \<and> FindSimilarFiles listOrder reverseOrder similarEngine ''t.ts'' 2 = [''b.ts'', ''a.ts'']"
  by code_simp

theorem similar_files_not_by_score_witness:
  "Initialized similarEngine \<and> (0 :: int) < 1
   \<and> lookupCount [(''a.ts'', 2), (''b.ts'', 1)] ''b.ts'' < lookupCount [(''a.ts'', 2), (''b.ts'', 1)] ''a.ts''
   \<and> ''a.ts'' \<notin> set (FindSimilarFiles listOrder reverseOrder similarEngine ''t.ts'' 1)
   \<and> ''b.ts'' \<in> set (FindSimilarFiles listOrder reverseOrder similarEngine ''t.ts'' 1)"
  using similar_files_not_by_score by (simp add: lookupCount_def)

text \<open>
  The text of claim C4 expects, for the one-line module \<open>add\<close> and vitest, a happy-path
  test with two numeric literal bindings that calls \<open>add(a, b)\<close>. No renderer writes
  that call or a binding for \<open>a\<close>: the basic renderer passes one \<open>null\<close> per parameter, and
  the exports that \<open>analyzeBasic\<close> and \<open>IndexProject\<close> build carry no parameters, so the
  other two renderers call \<open>add()\<close>.
\<close>

theorem add_example_counterexample:
  "GenerateTest ''add.ts'' addSource ''vitest''
     = Inr (generateTestCode ''add.ts'' [addSymbol] addSource ''vitest'')
   \<and> \<not> Contains (generateTestCode ''add.ts'' [addSymbol] addSource ''vitest'') ''add(a, b)''
   \<and> \<not> Contains (generateTestCode ''add.ts'' [addSymbol] addSource ''vitest'') ''const a = ''
   \<and> GenerateTestWithAugment asciiLower CommandFails listOrder ''add.ts'' addSource ''vitest''
     = Inr (generateTestCodeFromAnalysis asciiLower listOrder ''add.ts'' (analyzeBasic asciiLower ''add.ts'' addSource) ''vitest'')
   \<and> \<not> Contains (generateTestCodeFromAnalysis asciiLower listOrder ''add.ts''
                    (analyzeBasic asciiLower ''add.ts'' addSource) ''vitest'') ''add(a, b)''
   \<and> \<not> Contains (generateTestCodeFromAnalysis asciiLower listOrder ''add.ts''
                    (analyzeBasic asciiLower ''add.ts'' addSource) ''vitest'') ''const a = ''
   \<and> GenerateTestWithProjectContext asciiLower keepImport listOrder listOrder listOrder addEngine ''vitest''
       ''add.ts'' addSource
     = Inr (generateTestCodeWithContext asciiLower listOrder ''vitest'' ''add.ts'' addSource
              [symbolToExport addSymbol] [])
   \<and> \<not> Contains (generateTestCodeWithContext asciiLower listOrder ''vitest'' ''add.ts'' addSource
                    [symbolToExport addSymbol] []) ''add(a, b)''
   \<and> \<not> Contains (generateTestCodeWithContext asciiLower listOrder ''vitest'' ''add.ts'' addSource
                    [symbolToExport addSymbol] []) ''const a = ''"
  by code_simp

text \<open>
  Claim C4, as the code has it: for the file that holds exactly
  \<^verbatim>\<open>export function add(a: number, b: number): number { return a+b }\<close> extraction gives
  exactly one symbol, named \<open>add\<close>, of kind function, with the two parameters \<open>a\<close> and
  \<open>b\<close>; for vitest the basic generator succeeds, and its text imports \<open>add\<close> from the
  module and the test utilities from vitest, calls \<open>add(null, null)\<close> (one null literal per
  parameter, no bindings) and holds the existence assertion. The text is a function of
  the source path, the source text and the framework flag.
\<close>

theorem add_example_basic_renderer:
  "extractExports addSource = [addSymbol]
   \<and> length (params addSymbol) = 2
   \<and> GenerateTest ''add.ts'' addSource ''vitest''
       = Inr (generateTestCode ''add.ts'' [addSymbol] addSource ''vitest'')
   \<and> Contains (generateTestCode ''add.ts'' [addSymbol] addSource ''vitest'')
        (''import { add } from '' @ q @ ''../add'' @ q @ '';'')
   \<and> Contains (generateTestCode ''add.ts'' [addSymbol] addSource ''vitest'')
        (''from '' @ q @ ''vitest'' @ q @ '';'')
   \<and> Contains (generateTestCode ''add.ts'' [addSymbol] addSource ''vitest'')
        ''const result = add(null, null);''
   \<and> Contains (generateTestCode ''add.ts'' [addSymbol] addSource ''vitest'')
        ''expect(add).toBeDefined();''"
  by code_simp

text \<open>
  Claim C5: for every limit \<open>n\<close> the pool never has more than \<open>n\<close> units in flight. After any
  sequence of steps the goroutines can take from the start, the number of units that hold
  a slot equals the number of tokens in the semaphore and is at most \<open>n\<close>; and a unit that
  has reported its result, with or without an error, can always give its slot back.
\<close>

theorem bounded_concurrency:
  assumes "runEvents n tp gen wq es (initPool wq) = Some s"
  shows "inFlight s \<le> n \<and> inFlight s = slots s
     \<and> (\<forall>i < length (phases s). phases s ! i = Reported
           \<longrightarrow> fire n tp gen wq (Release i) s
               = Some (s\<lparr>phases := (phases s)[i := Finished], slots := slots s - 1\<rparr>))"
proof -
  from runEvents_inv[OF init_inv assms] have inv: "inFlight s = slots s \<and> slots s \<le> n" .
  have "0 < slots s" if "i < length (phases s)" "phases s ! i = Reported" for i
  proof -
    have "holdsSlot (phases s ! i)" using that(2) by (simp add: holdsSlot_def)
    with that(1) have "0 < inFlight s"
      unfolding inFlight_def by (rule filter_nonempty[of i "phases s" holdsSlot])
    with inv show ?thesis by simp
  qed
  with inv show ?thesis by simp
qed

theorem bounded_concurrency_witness:
  "runEvents 1 specPath failsOnB twoItems [Acquire 1, Report 1] (initPool twoItems)
     = Some \<lparr>phases = [Waiting, Reported], slots = 1,
             results = [\<lparr>SourcePath = ''b.ts'', TestPath = ''b.spec.ts'', TestCode = [],
                         Error = Some (GenerationFailed CLIRunFailed)\<rparr>]\<rparr>
   \<and> inFlight \<lparr>phases = [Waiting, Reported], slots = 1,
             results = [\<lparr>SourcePath = ''b.ts'', TestPath = ''b.spec.ts'', TestCode = [],
                         Error = Some (GenerationFailed CLIRunFailed)\<rparr>]\<rparr> \<le> 1
   \<and> fire 1 specPath failsOnB twoItems (Acquire 0)
        \<lparr>phases = [Waiting, Reported], slots = 1,
             results = [\<lparr>SourcePath = ''b.ts'', TestPath = ''b.spec.ts'', TestCode = [],
                         Error = Some (GenerationFailed CLIRunFailed)\<rparr>]\<rparr> = None
   \<and> fire 1 specPath failsOnB twoItems (Release 1)
        \<lparr>phases = [Waiting, Reported], slots = 1,
             results = [\<lparr>SourcePath = ''b.ts'', TestPath = ''b.spec.ts'', TestCode = [],
                         Error = Some (GenerationFailed CLIRunFailed)\<rparr>]\<rparr>
      = Some \<lparr>phases = [Waiting, Finished], slots = 0,
             results = [\<lparr>SourcePath = ''b.ts'', TestPath = ''b.spec.ts'', TestCode = [],
                         Error = Some (GenerationFailed CLIRunFailed)\<rparr>]\<rparr>"
proof -
  have run: "runEvents 1 specPath failsOnB twoItems [Acquire 1, Report 1] (initPool twoItems)
     = Some \<lparr>phases = [Waiting, Reported], slots = 1,
             results = [\<lparr>SourcePath = ''b.ts'', TestPath = ''b.spec.ts'', TestCode = [],
                         Error = Some (GenerationFailed CLIRunFailed)\<rparr>]\<rparr>"
    by code_simp
  have blocked: "fire 1 specPath failsOnB twoItems (Acquire 0)
        \<lparr>phases = [Waiting, Reported], slots = 1,
             results = [\<lparr>SourcePath = ''b.ts'', TestPath = ''b.spec.ts'', TestCode = [],
                         Error = Some (GenerationFailed CLIRunFailed)\<rparr>]\<rparr> = None"
    by simp
  from bounded_concurrency[OF run] run blocked show ?thesis by simp
qed

text \<open>
  Claim C6: the scenario synthesizer emits, for a synchronous symbol with at least one
  parameter, happy path, null input, empty input; for an async symbol the same list with
  async resolution appended; for a synchronous symbol without parameters, happy path and
  empty input.
\<close>

theorem scenario_order:
  "(Parameters exp \<noteq> [] \<and> \<not> IsAsync exp \<longrightarrow>
      map SName (generateBasicScenarios unicodeLower exp)
        = [Name exp @ '' - happy path'', Name exp @ '' - null input'', Name exp @ '' - empty input''])
   \<and> (Parameters exp \<noteq> [] \<and> IsAsync exp \<longrightarrow>
      map SName (generateBasicScenarios unicodeLower exp)
        = [Name exp @ '' - happy path'', Name exp @ '' - null input'', Name exp @ '' - empty input'']
          @ [Name exp @ '' - async resolution''])
   \<and> (Parameters exp = [] \<and> \<not> IsAsync exp \<longrightarrow>
      map SName (generateBasicScenarios unicodeLower exp)
        = [Name exp @ '' - happy path'', Name exp @ '' - empty input''])
   \<and> (Parameters exp = [] \<and> IsAsync exp \<longrightarrow>
      map SName (generateBasicScenarios unicodeLower exp)
        = [Name exp @ '' - happy path'', Name exp @ '' - empty input'']
          @ [Name exp @ '' - async resolution''])"
  by (simp add: generateBasicScenarios_def)

theorem scenario_order_witness:
  "Parameters addExport \<noteq> [] \<and> \<not> IsAsync addExport
   \<and> map SName (generateBasicScenarios asciiLower addExport)
       = [''add - happy path'', ''add - null input'', ''add - empty input'']
   \<and> Parameters (addExport\<lparr>IsAsync := True\<rparr>) \<noteq> [] \<and> IsAsync (addExport\<lparr>IsAsync := True\<rparr>)
   \<and> map SName (generateBasicScenarios asciiLower (addExport\<lparr>IsAsync := True\<rparr>))
       = [''add - happy path'', ''add - null input'', ''add - empty input'', ''add - async resolution'']
   \<and> Parameters (addExport\<lparr>Parameters := []\<rparr>) = [] \<and> \<not> IsAsync (addExport\<lparr>Parameters := []\<rparr>)
   \<and> map SName (generateBasicScenarios asciiLower (addExport\<lparr>Parameters := []\<rparr>))
       = [''add - happy path'', ''add - empty input'']"
  using scenario_order[of addExport asciiLower] scenario_order[of "addExport\<lparr>IsAsync := True\<rparr>" asciiLower]
    scenario_order[of "addExport\<lparr>Parameters := []\<rparr>" asciiLower]
  by (simp add: addExport_def)

text \<open>
  The text of claim C7 makes the "no exported symbols" failure equivalent to an empty
  extraction for the file's text. For \<open>GenerateTestWithAugment\<close> both directions fail once
  the external program takes part: when its output decodes to an analysis without exports,
  generation fails with that condition although extraction finds \<open>add\<close> in the text; when
  the program is not on the path, generation of a text without exports fails with another
  condition.
\<close>

theorem no_exported_symbols_counterexample:
  "extractExports addSource \<noteq> []
   \<and> GenerateTestWithAugment asciiLower (OutputParsed emptyAnalysis) listOrder ''add.ts'' addSource
        ''vitest'' = Inl (NoExportedSymbols ''add.ts'')
   \<and> extractExports noExports = []
   \<and> GenerateTestWithAugment asciiLower LookPathFails listOrder ''x.ts'' noExports ''vitest''
       = Inl (AugmentAnalysisFailed AugmentNotInPath)"
  by code_simp

text \<open>
  Claim C7, as the code has it: \<open>GenerateTest\<close> fails with the "no exported symbols"
  condition exactly when extraction returns no symbol for the text, and has no other
  failure. \<open>GenerateTestWithAugment\<close> fails with that condition exactly when the analysis it
  works from lists no export: the local analysis, taken when the external command fails or
  prints no JSON, lists none exactly when extraction returns no symbol; a decoded analysis
  is taken as it is, whatever extraction would return; and when the program is not found
  or the temporary file cannot be created or written, generation fails with the
  analysis-failed condition instead. The extractor has no error result: it returns the
  empty list exactly when none of its four patterns matches.
\<close>

theorem no_exported_symbols_by_generator:
  "((GenerateTest tsPath code framework = Inl (NoExportedSymbols tsPath))
      = (extractExports code = []))
   \<and> ((\<exists>err. GenerateTest tsPath code framework = Inl err) = (extractExports code = []))
   \<and> ((GenerateTestWithAugment unicodeLower CommandFails ord tsPath code framework
          = Inl (NoExportedSymbols tsPath)) = (extractExports code = []))
   \<and> ((\<exists>err. GenerateTestWithAugment unicodeLower CommandFails ord tsPath code framework = Inl err)
        = (extractExports code = []))
   \<and> ((GenerateTestWithAugment unicodeLower OutputNotJSON ord tsPath code framework
          = Inl (NoExportedSymbols tsPath)) = (extractExports code = []))
   \<and> ((\<exists>err. GenerateTestWithAugment unicodeLower OutputNotJSON ord tsPath code framework = Inl err)
        = (extractExports code = []))
   \<and> ((GenerateTestWithAugment unicodeLower (OutputParsed analysis) ord tsPath code framework
          = Inl (NoExportedSymbols tsPath)) = (Exports analysis = []))
   \<and> ((\<exists>err. GenerateTestWithAugment unicodeLower (OutputParsed analysis) ord tsPath code framework
              = Inl err) = (Exports analysis = []))
   \<and> GenerateTestWithAugment unicodeLower LookPathFails ord tsPath code framework
       = Inl (AugmentAnalysisFailed AugmentNotInPath)
   \<and> GenerateTestWithAugment unicodeLower CreateTempFails ord tsPath code framework
       = Inl (AugmentAnalysisFailed CreateTempFailed)
   \<and> GenerateTestWithAugment unicodeLower WriteTempFails ord tsPath code framework
       = Inl (AugmentAnalysisFailed WriteTempFailed)
   \<and> ((extractExports code = [])
        = (FindAllStringSubmatch funcPattern code = []
           \<and> FindAllStringSubmatch constPattern code = []
           \<and> FindAllStringSubmatch classPattern code = []
           \<and> FindAllStringSubmatch defaultPattern code = []))"
proof -
  have basic: "(GenerateTest tsPath code framework = Inl (NoExportedSymbols tsPath))
      = (extractExports code = [])"
    "(\<exists>err. GenerateTest tsPath code framework = Inl err) = (extractExports code = [])"
    by (auto simp add: GenerateTest_def Let_def split: if_splits)
  have local: "(GenerateTestWithAugment unicodeLower run ord tsPath code framework
          = Inl (NoExportedSymbols tsPath)) = (extractExports code = [])"
    "(\<exists>err. GenerateTestWithAugment unicodeLower run ord tsPath code framework = Inl err)
        = (extractExports code = [])"
    if "run = CommandFails \<or> run = OutputNotJSON" for run
    using that
    by (auto simp add: GenerateTestWithAugment_def AnalyzeWithAugment_def analyzeBasic_def
        Let_def split: if_splits)
  have parsed: "(GenerateTestWithAugment unicodeLower (OutputParsed analysis) ord tsPath code
          framework = Inl (NoExportedSymbols tsPath)) = (Exports analysis = [])"
    "(\<exists>err. GenerateTestWithAugment unicodeLower (OutputParsed analysis) ord tsPath code framework
              = Inl err) = (Exports analysis = [])"
    by (auto simp add: GenerateTestWithAugment_def AnalyzeWithAugment_def split: if_splits)
  have unavailable:
    "GenerateTestWithAugment unicodeLower LookPathFails ord tsPath code framework
       = Inl (AugmentAnalysisFailed AugmentNotInPath)"
    "GenerateTestWithAugment unicodeLower CreateTempFails ord tsPath code framework
       = Inl (AugmentAnalysisFailed CreateTempFailed)"
    "GenerateTestWithAugment unicodeLower WriteTempFails ord tsPath code framework
       = Inl (AugmentAnalysisFailed WriteTempFailed)"
    by (simp_all add: GenerateTestWithAugment_def AnalyzeWithAugment_def)
  have none: "(extractExports code = [])
        = (FindAllStringSubmatch funcPattern code = []
           \<and> FindAllStringSubmatch constPattern code = []
           \<and> FindAllStringSubmatch classPattern code = []
           \<and> FindAllStringSubmatch defaultPattern code = [])"
    by (auto simp add: extractExports_def defaultSymbols_def split: list.splits)
  show ?thesis
    using basic local[of CommandFails] local[of OutputNotJSON] parsed unavailable none
    by (simp only: simp_thms)
qed

theorem no_exported_symbols_by_generator_witness:
  "extractExports noExports = []
   \<and> GenerateTest ''x.ts'' noExports ''jest'' = Inl (NoExportedSymbols ''x.ts'')
   \<and> GenerateTestWithAugment asciiLower CommandFails listOrder ''x.ts'' noExports ''jest''
       = Inl (NoExportedSymbols ''x.ts'')
   \<and> GenerateTestWithAugment asciiLower OutputNotJSON listOrder ''x.ts'' noExports ''jest''
       = Inl (NoExportedSymbols ''x.ts'')
   \<and> extractExports addSource \<noteq> []
   \<and> GenerateTest ''add.ts'' addSource ''jest'' \<noteq> Inl (NoExportedSymbols ''add.ts'')
   \<and> Exports addAnalysis \<noteq> []
   \<and> GenerateTestWithAugment asciiLower (OutputParsed addAnalysis) listOrder ''x.ts'' noExports
        ''jest'' \<noteq> Inl (NoExportedSymbols ''x.ts'')"
proof -
  have none: "extractExports noExports = []" by code_simp
  have some: "extractExports addSource \<noteq> []" by code_simp
  have an: "Exports addAnalysis \<noteq> []" by (simp add: addAnalysis_def)
  show ?thesis
    using none some an
      no_exported_symbols_by_generator[of "''x.ts''" noExports "''jest''" asciiLower listOrder
        addAnalysis]
      no_exported_symbols_by_generator[of "''add.ts''" addSource "''jest''" asciiLower listOrder
        addAnalysis]
    by simp
qed

text \<open>
  Claim C8: the error of a unit stays in the result of that unit, and the run is fatal
  only when no unit succeeded and at least one failed; when some unit succeeded the
  failures are counted and the successful results go on unchanged.
\<close>

theorem aggregate_failure_policy:
  "((aggregate rs = FatalAllGenerationsFailed) = (rs \<noteq> [] \<and> (\<forall>r \<in> set rs. Error r \<noteq> None)))
   \<and> ((\<exists>r \<in> set rs. Error r = None) \<longrightarrow>
         aggregate rs = Generated (filter (\<lambda>r. Error r = None) rs))
   \<and> ((Error (unitResult testPathOf gen wi) = None) = (\<exists>testCode. gen wi = Inr testCode))
   \<and> SourcePath (unitResult testPathOf gen wi) = item_path wi"
  by (auto simp add: aggregate_def collectResults_eq filter_empty_conv unitResult_def
      split: if_splits sum.splits)

theorem aggregate_failure_policy_witness:
  "aggregate (map (unitResult specPath failsOnB) twoItems)
     = Generated [\<lparr>SourcePath = ''a.ts'', TestPath = ''a.spec.ts'', TestCode = ''// tests'',
                   Error = None\<rparr>]
   \<and> aggregate (map (unitResult specPath (\<lambda>wi. Inl CLIRunFailed)) twoItems)
     = FatalAllGenerationsFailed
   \<and> aggregate [] = NoTestsGenerated"
proof -
  have a: "map (unitResult specPath failsOnB) twoItems
     = [\<lparr>SourcePath = ''a.ts'', TestPath = ''a.spec.ts'', TestCode = ''// tests'', Error = None\<rparr>,
        \<lparr>SourcePath = ''b.ts'', TestPath = ''b.spec.ts'', TestCode = [],
          Error = Some (GenerationFailed CLIRunFailed)\<rparr>]"
    by code_simp
  have b: "map (unitResult specPath (\<lambda>wi. Inl CLIRunFailed)) twoItems
     = [\<lparr>SourcePath = ''a.ts'', TestPath = ''a.spec.ts'', TestCode = [],
          Error = Some (GenerationFailed CLIRunFailed)\<rparr>,
        \<lparr>SourcePath = ''b.ts'', TestPath = ''b.spec.ts'', TestCode = [],
          Error = Some (GenerationFailed CLIRunFailed)\<rparr>]"
    by code_simp
  show ?thesis
    unfolding a b
    using aggregate_failure_policy[of "[\<lparr>SourcePath = ''a.ts'', TestPath = ''a.spec.ts'', TestCode = ''// tests'', Error = None\<rparr>,
        \<lparr>SourcePath = ''b.ts'', TestPath = ''b.spec.ts'', TestCode = [],
          Error = Some (GenerationFailed CLIRunFailed)\<rparr>]" specPath failsOnB "hd twoItems"]
      aggregate_failure_policy[of "[\<lparr>SourcePath = ''a.ts'', TestPath = ''a.spec.ts'', TestCode = [],
          Error = Some (GenerationFailed CLIRunFailed)\<rparr>,
        \<lparr>SourcePath = ''b.ts'', TestPath = ''b.spec.ts'', TestCode = [],
          Error = Some (GenerationFailed CLIRunFailed)\<rparr>]" specPath failsOnB "hd twoItems"]
      aggregate_failure_policy[of "[]" specPath failsOnB "hd twoItems"]
    by (simp add: aggregate_def collectResults_def)
qed

text \<open>
  Claim C9: every read operation of the project index (related code, similar files,
  export context, file context, project statistics) returns an empty result while
  \<open>Initialized\<close> is false; a new engine starts with \<open>Initialized\<close> false, and after
  \<open>IndexProject\<close> returns without error it is true.
\<close>

theorem reads_empty_before_indexing:
  "(\<not> Initialized ace \<longrightarrow>
      GetRelatedCode resolve ace targetFile = []
      \<and> FindSimilarFiles ordE ordS ace targetFile limit = []
      \<and> GetExportContext resolve ordR ace targetFile = []
      \<and> GetFileContext resolve ordE ordS ace targetFile = []
      \<and> GetProjectStats ace = [])
   \<and> (snd (IndexProject rel tree ace) = None \<longrightarrow> Initialized (fst (IndexProject rel tree ace)))
   \<and> \<not> Initialized (NewAugmentContextEngine projectRoot)"
  by (auto simp add: GetRelatedCode_def FindSimilarFiles_def GetExportContext_def
      GetFileContext_def GetProjectStats_def IndexProject_def NewAugmentContextEngine_def
      split: prod.splits bool.splits)

theorem reads_empty_before_indexing_witness:
  "\<not> Initialized (NewAugmentContextEngine ''.'')
   \<and> GetRelatedCode (\<lambda>t d. d) (NewAugmentContextEngine ''.'') ''t.ts'' = []
   \<and> FindSimilarFiles listOrder listOrder (NewAugmentContextEngine ''.'') ''t.ts'' 3 = []
   \<and> GetProjectStats (NewAugmentContextEngine ''.'') = []
   \<and> snd (IndexProject (\<lambda>root p. p) similarTree (NewAugmentContextEngine ''.'')) = None
   \<and> Initialized similarEngine
   \<and> FindSimilarFiles listOrder listOrder similarEngine ''t.ts'' 3 = [''a.ts'', ''b.ts'']"
proof -
  have ok: "snd (IndexProject (\<lambda>root p. p) similarTree (NewAugmentContextEngine ''.'')) = None"
    by code_simp
  have sim: "FindSimilarFiles listOrder listOrder similarEngine ''t.ts'' 3 = [''a.ts'', ''b.ts'']"
    by code_simp
  show ?thesis
    using ok sim
      reads_empty_before_indexing[of "NewAugmentContextEngine ''.''" "\<lambda>t d. d" "''t.ts''"
        listOrder listOrder 3 listOrder "\<lambda>root p. p" similarTree "''.''"]
    by (simp add: similarEngine_def)
qed




end
